theory Spec2Isabelle
  imports Complex_Main "HOL-Library.AList"
begin

section \<open>Python values and the builtins the service calls\<close>

text \<open>
  The service (\<^verbatim>\<open>app.py\<close>) is dynamically typed: the fields of a webhook request
  are whatever \<^verbatim>\<open>request.json\<close> decoded. A value is therefore a JSON value. A Python
  \<^verbatim>\<open>str\<close> is written as the bytes of its UTF-8 encoding, a \<^verbatim>\<open>dict\<close> as an
  association list with distinct keys, and the type of Python floats is the parameter
  \<open>'f\<close>.
\<close>

datatype 'f json =
    JNull
  | JBool bool
  | JInt int
  | JFloat 'f
  | JStr string
  | JList "'f json list"
  | JObj "(string \<times> 'f json) list"

text \<open>An exception is its class and its message (\<^verbatim>\<open>str(e)\<close>).\<close>

datatype exn_class =
    ValueError | TypeError | OverflowError | AttributeError | JSONDecodeError | OtherException

datatype exn = Exn exn_class string

fun exn_class_of :: "exn \<Rightarrow> exn_class" where
  "exn_class_of (Exn c m) = c"

fun exn_str :: "exn \<Rightarrow> string" where
  "exn_str (Exn c m) = m"

text \<open>
  The builtins of Python that the code calls are not part of the repository; they are
  the fields of a record that every function of the model takes:
  \<^verbatim>\<open>str.upper\<close>, \<^verbatim>\<open>str.strip\<close>, \<^verbatim>\<open>float(str)\<close>, \<^verbatim>\<open>float(int)\<close>,
  \<^verbatim>\<open>int(str)\<close>, \<^verbatim>\<open>int(float)\<close>, \<^verbatim>\<open>bool(float)\<close>, and \<^verbatim>\<open>dict.update\<close>
  applied to a decoded JSON value that is not an object. \<open>Inl\<close> is a raised exception.
\<close>

record 'f py =
  str_upper :: "string \<Rightarrow> string"
  str_strip :: "string \<Rightarrow> string"
  float_of_str :: "string \<Rightarrow> exn + 'f"
  float_of_int :: "int \<Rightarrow> exn + 'f"
  int_of_str :: "string \<Rightarrow> exn + int"
  int_of_float :: "'f \<Rightarrow> exn + int"
  float_truthy :: "'f \<Rightarrow> bool"
  update_non_dict :: "(string \<rightharpoonup> 'f json) \<Rightarrow> 'f json \<Rightarrow> exn + (string \<rightharpoonup> 'f json)"

text \<open>Truth value of a Python object, as \<^verbatim>\<open>if x:\<close> and \<^verbatim>\<open>not x\<close> take it.\<close>

fun truthy :: "'f py \<Rightarrow> 'f json \<Rightarrow> bool" where
  "truthy rt JNull = False"
| "truthy rt (JBool b) = b"
| "truthy rt (JInt i) = (i \<noteq> 0)"
| "truthy rt (JFloat x) = float_truthy rt x"
| "truthy rt (JStr s) = (s \<noteq> [])"
| "truthy rt (JList xs) = (xs \<noteq> [])"
| "truthy rt (JObj kvs) = (kvs \<noteq> [])"

text \<open>
  The three sentinel strings of the source, \<^verbatim>\<open>'\<close>unknown ticker\<^verbatim>\<open>'\<close>,
  \<^verbatim>\<open>'\<close>unknown price\<^verbatim>\<open>'\<close> and \<^verbatim>\<open>'\<close>no action\<^verbatim>\<open>'\<close> (four, four and three
  Chinese characters), as UTF-8 bytes.
\<close>

definition unknown_ticker :: string where
  "unknown_ticker =
     [CHR 0xE6, CHR 0x9C, CHR 0xAA, CHR 0xE7, CHR 0x9F, CHR 0xA5,
      CHR 0xE5, CHR 0x93, CHR 0x81, CHR 0xE7, CHR 0xA7, CHR 0x8D]"

definition unknown_price :: string where
  "unknown_price =
     [CHR 0xE6, CHR 0x9C, CHR 0xAA, CHR 0xE7, CHR 0x9F, CHR 0xA5,
      CHR 0xE4, CHR 0xBB, CHR 0xB7, CHR 0xE6, CHR 0xA0, CHR 0xBC]"

definition no_action :: string where
  "no_action =
     [CHR 0xE6, CHR 0x97, CHR 0xA0, CHR 0xE5, CHR 0x8A, CHR 0xA8,
      CHR 0xE4, CHR 0xBD, CHR 0x9C]"

section \<open>The ticker mapping\<close>

text \<open>
  \<^verbatim>\<open>_ticker_mapping\<close> is a dict from strings to whatever the three sources put
  there: strings from the defaults and the file, any JSON value from the environment.
\<close>

type_synonym 'f ticker_mapping = "string \<rightharpoonup> 'f json"

text \<open>\<^verbatim>\<open>_default_ticker_mapping = {'GC': 'MGC'}\<close>\<close>

definition default_ticker_mapping :: "'f ticker_mapping" where
  "default_ticker_mapping = [''GC'' \<mapsto> JStr ''MGC'']"

text \<open>
  \<^verbatim>\<open>map_ticker(ticker)\<close>: a falsy ticker or the sentinel is returned as it is;
  \<^verbatim>\<open>ticker.upper()\<close> raises AttributeError on a value that is not a string;
  \<^verbatim>\<open>_ticker_mapping.get(ticker_upper, ticker)\<close> is the result. The log line is not
  modelled.
\<close>

definition map_ticker :: "'f py \<Rightarrow> 'f ticker_mapping \<Rightarrow> 'f json \<Rightarrow> exn + 'f json" where
  "map_ticker rt tm ticker =
     (if \<not> truthy rt ticker \<or> ticker = JStr unknown_ticker then Inr ticker
      else
        (case ticker of
           JStr s \<Rightarrow>
             (case tm (str_upper rt s) of
                Some mapped_ticker \<Rightarrow> Inr mapped_ticker
              | None \<Rightarrow> Inr ticker)
         | _ \<Rightarrow> Inl (Exn AttributeError ''object has no attribute upper'')))"

section \<open>A reference instance of the builtins\<close>

text \<open>
  For evaluating the model on concrete inputs: the builtins restricted to ASCII and to
  plain decimal literals, a float being the rational number its literal denotes. On the
  strings used in the examples below (ASCII letters, \<^verbatim>\<open>1950.5\<close>, \<^verbatim>\<open>10\<close>,
  \<^verbatim>\<open>0\<close>, \<^verbatim>\<open>abc\<close>) it returns what CPython returns. \<^verbatim>\<open>dict.update\<close> is
  given only its behaviour on a value that cannot be iterated (a number, a boolean,
  null), which raises \<^verbatim>\<open>TypeError\<close>; no example below reaches it.
\<close>

definition ascii_upper_char :: "char \<Rightarrow> char" where
  "ascii_upper_char c =
     (case map_of (zip ''abcdefghijklmnopqrstuvwxyz'' ''ABCDEFGHIJKLMNOPQRSTUVWXYZ'') c of
        Some u \<Rightarrow> u
      | None \<Rightarrow> c)"

definition ascii_space :: "char \<Rightarrow> bool" where
  "ascii_space c = (let n = (of_char c :: nat) in (9 \<le> n \<and> n \<le> 13) \<or> (28 \<le> n \<and> n \<le> 32))"

definition ascii_strip :: "string \<Rightarrow> string" where
  "ascii_strip s = rev (dropWhile ascii_space (rev (dropWhile ascii_space s)))"

definition ascii_digit :: "char \<Rightarrow> bool" where
  "ascii_digit c = (let n = (of_char c :: nat) in 48 \<le> n \<and> n \<le> 57)"

fun digits_value :: "nat \<Rightarrow> string \<Rightarrow> nat" where
  "digits_value acc [] = acc"
| "digits_value acc (c # cs) = digits_value (10 * acc + ((of_char c :: nat) - 48)) cs"

definition read_digits :: "string \<Rightarrow> nat option" where
  "read_digits s = (if s \<noteq> [] \<and> list_all ascii_digit s then Some (digits_value 0 s) else None)"

definition read_int :: "string \<Rightarrow> int option" where
  "read_int s =
     (case s of
        [] \<Rightarrow> None
      | c # cs \<Rightarrow>
          if c = CHR ''-'' then map_option (\<lambda>n. - int n) (read_digits cs)
          else if c = CHR ''+'' then map_option int (read_digits cs)
          else map_option int (read_digits s))"

definition read_decimal :: "string \<Rightarrow> real option" where
  "read_decimal s =
     (let ip = takeWhile (\<lambda>c. c \<noteq> CHR ''.'') s; rest = dropWhile (\<lambda>c. c \<noteq> CHR ''.'') s in
      case rest of
        [] \<Rightarrow> map_option real_of_int (read_int ip)
      | d # fp \<Rightarrow>
          (case (read_int ip, read_digits fp) of
             (Some i, Some n) \<Rightarrow>
               Some (if i < 0 \<or> take 1 ip = ''-''
                     then real_of_int i - real n / 10 ^ length fp
                     else real_of_int i + real n / 10 ^ length fp)
           | _ \<Rightarrow> None))"

definition ascii_py :: "real py" where
  "ascii_py =
     \<lparr> str_upper = map ascii_upper_char,
       str_strip = ascii_strip,
       float_of_str = (\<lambda>s. case read_decimal s of
                              Some x \<Rightarrow> Inr x
                            | None \<Rightarrow> Inl (Exn ValueError ''could not convert string to float'')),
       float_of_int = (\<lambda>i. Inr (real_of_int i)),
       int_of_str = (\<lambda>s. case read_int s of
                            Some i \<Rightarrow> Inr i
                          | None \<Rightarrow> Inl (Exn ValueError ''invalid literal for int()'')),
       int_of_float = (\<lambda>x. Inr (if 0 \<le> x then \<lfloor>x\<rfloor> else \<lceil>x\<rceil>)),
       float_truthy = (\<lambda>x. x \<noteq> 0),
       update_non_dict = (\<lambda>tm v. Inl (Exn TypeError ''object is not iterable'')) \<rparr>"

section \<open>The client registry and the broadcast\<close>

text \<open>
  \<^verbatim>\<open>_ws_clients\<close> is a Python set of connection handles. It is written as the list
  of its members in the order in which \<^verbatim>\<open>list(_ws_clients)\<close> yields them, which is any
  order. What the service writes to the sockets is recorded in a trace. One broadcast runs
  at a time here: handles added or removed by other threads while it runs are not
  modelled.
\<close>

datatype 'h io_event = Sent 'h string | SendFailed 'h string

record 'h ws_state =
  ws_clients :: "'h list"
  io_trace :: "'h io_event list"

text \<open>
  The loop \<^verbatim>\<open>for client in clients_copy\<close>. \<open>send client message\<close> is the outcome
  of \<^verbatim>\<open>await client.send(message)\<close>: \<open>None\<close> when it returns, \<open>Some e\<close> when it
  raises the exception \<open>e\<close>, which \<^verbatim>\<open>except Exception\<close> catches.
\<close>

fun send_each ::
  "('h \<Rightarrow> string \<Rightarrow> exn option) \<Rightarrow> string \<Rightarrow> 'h list \<Rightarrow> 'h set \<times> 'h io_event list
     \<Rightarrow> 'h set \<times> 'h io_event list" where
  "send_each send message [] acc = acc"
| "send_each send message (client # cs) (disconnected, tr) =
     (case send client message of
        None \<Rightarrow> send_each send message cs (disconnected, tr @ [Sent client message])
      | Some e \<Rightarrow>
          send_each send message cs
            (insert client disconnected, tr @ [SendFailed client message]))"

text \<open>
  \<^verbatim>\<open>broadcast_signal(signal_data)\<close>. \<^verbatim>\<open>WS_ENABLED\<close> is read from the environment
  at import time and is a parameter, as are \<^verbatim>\<open>json.dumps\<close> (which raises on an object
  it cannot serialise, before the registry is looked at) and the sockets.
\<close>

definition broadcast_signal ::
  "bool \<Rightarrow> ('s \<Rightarrow> exn + string) \<Rightarrow> ('h \<Rightarrow> string \<Rightarrow> exn option) \<Rightarrow> 's \<Rightarrow> 'h ws_state
     \<Rightarrow> exn + 'h ws_state" where
  "broadcast_signal ws_enabled json_dumps send signal_data st =
     (if \<not> ws_enabled then Inr st
      else
        (case json_dumps signal_data of
           Inl e \<Rightarrow> Inl e
         | Inr message \<Rightarrow>
             if length (ws_clients st) = 0 then Inr st
             else
               (let clients_copy = ws_clients st;
                    (disconnected, tr) = send_each send message clients_copy ({}, io_trace st)
                in if disconnected \<noteq> {}
                   then Inr (st\<lparr>ws_clients := filter (\<lambda>c. c \<notin> disconnected) (ws_clients st),
                                io_trace := tr\<rparr>)
                   else Inr (st\<lparr>io_trace := tr\<rparr>))))"

text \<open>The trace entry of one send.\<close>

definition send_event :: "('h \<Rightarrow> string \<Rightarrow> exn option) \<Rightarrow> string \<Rightarrow> 'h \<Rightarrow> 'h io_event" where
  "send_event send message c =
     (case send c message of None \<Rightarrow> Sent c message | Some e \<Rightarrow> SendFailed c message)"

section \<open>Loading the ticker mapping\<close>

text \<open>
  What \<^verbatim>\<open>load_ticker_mapping\<close> finds at \<^verbatim>\<open>ticker_mapping.txt\<close>: no file, or
  the lines that iterating over the file yields (each with its line end), followed, when
  opening or reading raises, by the exception.
\<close>

datatype config_file = NoFile | File "string list" "exn option"

text \<open>The records that \<^verbatim>\<open>load_ticker_mapping\<close> writes to the log.\<close>

datatype log_record =
    Warning_line_skipped nat
  | Info_file_loaded
  | Info_file_empty
  | Error_file_read_failed exn
  | Info_file_missing
  | Info_env_loaded
  | Error_env_ignored exn
  | Info_final_mapping

text \<open>\<^verbatim>\<open>line.split('=', 1)\<close> on a line that contains \<^verbatim>\<open>=\<close>.\<close>

definition split_eq :: "string \<Rightarrow> string \<times> string" where
  "split_eq line =
     (takeWhile (\<lambda>c. c \<noteq> CHR ''='') line, drop 1 (dropWhile (\<lambda>c. c \<noteq> CHR ''='') line))"

text \<open>
  The body of the loop over the lines, for one line: a blank line or a comment is passed
  over by \<^verbatim>\<open>continue\<close>, a line \<^verbatim>\<open>source=target\<close> with both sides non-empty is
  an entry, anything else is logged with a warning and skipped.
\<close>

datatype line_kind = Passed_over | Entry string string | Skipped_with_warning

definition parse_line :: "'f py \<Rightarrow> string \<Rightarrow> line_kind" where
  "parse_line rt raw =
     (let line = str_strip rt raw in
      if line = [] \<or> take 1 line = ''#'' then Passed_over
      else if CHR ''='' \<in> set line then
        (let parts = split_eq line;
             source = str_upper rt (str_strip rt (fst parts));
             target = str_strip rt (snd parts)
         in if source \<noteq> [] \<and> target \<noteq> [] then Entry source target
            else Skipped_with_warning)
      else Skipped_with_warning)"

text \<open>
  The loop over the lines, numbered from \<open>line_num\<close>. The dict \<^verbatim>\<open>file_mapping\<close> is
  an association list; \<^verbatim>\<open>file_mapping[source] = target\<close> replaces the value of a key
  that is present and appends a new key.
\<close>

fun read_lines ::
  "'f py \<Rightarrow> nat \<Rightarrow> string list \<Rightarrow> (string \<times> string) list \<times> log_record list
     \<Rightarrow> (string \<times> string) list \<times> log_record list" where
  "read_lines rt line_num [] acc = acc"
| "read_lines rt line_num (raw # rest) (file_mapping, lg) =
     (case parse_line rt raw of
        Passed_over \<Rightarrow> read_lines rt (Suc line_num) rest (file_mapping, lg)
      | Entry source target \<Rightarrow>
          read_lines rt (Suc line_num) rest (AList.update source target file_mapping, lg)
      | Skipped_with_warning \<Rightarrow>
          read_lines rt (Suc line_num) rest (file_mapping, lg @ [Warning_line_skipped line_num]))"

text \<open>
  \<^verbatim>\<open>_ticker_mapping.update(env_mapping)\<close>: on a JSON object the entries are merged;
  what \<^verbatim>\<open>dict.update\<close> does with any other decoded value is the builtin's business.
\<close>

definition dict_update :: "'f py \<Rightarrow> 'f ticker_mapping \<Rightarrow> 'f json \<Rightarrow> exn + 'f ticker_mapping" where
  "dict_update rt tm env_mapping =
     (case env_mapping of
        JObj kvs \<Rightarrow> Inr (tm ++ map_of kvs)
      | _ \<Rightarrow> update_non_dict rt tm env_mapping)"

text \<open>
  \<^verbatim>\<open>load_ticker_mapping()\<close>. The second argument is the file; the third is
  \<open>None\<close> when \<^verbatim>\<open>TICKER_MAPPING\<close> is unset or empty, and otherwise the outcome of
  \<^verbatim>\<open>json.loads\<close> on its value. The result is the new \<^verbatim>\<open>_ticker_mapping\<close>, or the
  exception that leaves the function (only \<^verbatim>\<open>json.JSONDecodeError\<close> is caught around
  the environment part), and the log.
\<close>

definition load_ticker_mapping ::
  "'f py \<Rightarrow> config_file \<Rightarrow> (exn + 'f json) option
     \<Rightarrow> (exn + 'f ticker_mapping) \<times> log_record list" where
  "load_ticker_mapping rt file env =
     (let (tm1, lg1) =
            (case file of
               NoFile \<Rightarrow> (default_ticker_mapping, [Info_file_missing])
             | File ls failure \<Rightarrow>
                 (let (file_mapping, lg) = read_lines rt 1 ls ([], []) in
                  case failure of
                    Some e \<Rightarrow> (default_ticker_mapping, lg @ [Error_file_read_failed e])
                  | None \<Rightarrow>
                      if file_mapping \<noteq> []
                      then (default_ticker_mapping ++ (map_option JStr \<circ> map_of file_mapping),
                            lg @ [Info_file_loaded])
                      else (default_ticker_mapping, lg @ [Info_file_empty])))
      in case env of
           None \<Rightarrow> (Inr tm1, lg1 @ [Info_final_mapping])
         | Some loaded \<Rightarrow>
             (case (case loaded of Inl e \<Rightarrow> Inl e | Inr env_mapping \<Rightarrow> dict_update rt tm1 env_mapping) of
                Inr tm2 \<Rightarrow> (Inr tm2, lg1 @ [Info_env_loaded, Info_final_mapping])
              | Inl e \<Rightarrow>
                  if exn_class_of e = JSONDecodeError
                  then (Inr tm1, lg1 @ [Error_env_ignored e, Info_final_mapping])
                  else (Inl e, lg1)))"

text \<open>The entries of the file's lines in order, and the table they leave: a later line wins.\<close>

fun line_entry :: "'f py \<Rightarrow> string \<Rightarrow> (string \<times> string) option" where
  "line_entry rt raw =
     (case parse_line rt raw of Entry source target \<Rightarrow> Some (source, target) | _ \<Rightarrow> None)"

definition file_entries :: "'f py \<Rightarrow> string list \<Rightarrow> (string \<rightharpoonup> string)" where
  "file_entries rt ls = map_of (rev (List.map_filter (line_entry rt) ls))"

text \<open>
  The warnings the loop logs for the lines \<open>ls\<close>, numbered from \<open>n\<close>.
\<close>

definition line_warnings :: "'f py \<Rightarrow> nat \<Rightarrow> string list \<Rightarrow> log_record list" where
  "line_warnings rt n ls =
     map (\<lambda>p. Warning_line_skipped (fst p))
       (filter (\<lambda>p. parse_line rt (snd p) = Skipped_with_warning) (enumerate n ls))"

text \<open>
  The three layers of the table: the defaults, what the file contributes (nothing when it
  is missing or reading it failed) and what the environment contributes when it holds a
  JSON object.
\<close>

definition file_layer :: "'f py \<Rightarrow> config_file \<Rightarrow> 'f ticker_mapping" where
  "file_layer rt file =
     (case file of
        File ls None \<Rightarrow> map_option JStr \<circ> file_entries rt ls
      | _ \<Rightarrow> Map.empty)"

definition env_layer :: "(exn + 'f json) option \<Rightarrow> 'f ticker_mapping" where
  "env_layer env = (case env of Some (Inr (JObj kvs)) \<Rightarrow> map_of kvs | _ \<Rightarrow> Map.empty)"



text \<open>
  The file's layer in the specification's words, without the loop: a line is well formed
  when, trimmed, it is not blank, does not start with \<^verbatim>\<open>#\<close>, contains \<^verbatim>\<open>=\<close>, and
  has a non-empty source and a non-empty target; its source is the text before the first
  \<^verbatim>\<open>=\<close>, trimmed and uppercased, its target the text after it, trimmed. The file
  contributes the entries of its well-formed lines, a later line overriding an earlier
  one, and nothing when it is missing or reading it failed.
\<close>

definition text_before_equals :: "string \<Rightarrow> string" where
  "text_before_equals s = takeWhile (\<lambda>c. c \<noteq> CHR ''='') s"

definition text_after_equals :: "string \<Rightarrow> string" where
  "text_after_equals s = drop 1 (dropWhile (\<lambda>c. c \<noteq> CHR ''='') s)"

definition line_source :: "'f py \<Rightarrow> string \<Rightarrow> string" where
  "line_source rt raw = str_upper rt (str_strip rt (text_before_equals (str_strip rt raw)))"

definition line_target :: "'f py \<Rightarrow> string \<Rightarrow> string" where
  "line_target rt raw = str_strip rt (text_after_equals (str_strip rt raw))"

definition well_formed_line :: "'f py \<Rightarrow> string \<Rightarrow> bool" where
  "well_formed_line rt raw =
     (str_strip rt raw \<noteq> [] \<and> take 1 (str_strip rt raw) \<noteq> ''#''
      \<and> CHR ''='' \<in> set (str_strip rt raw)
      \<and> line_source rt raw \<noteq> [] \<and> line_target rt raw \<noteq> [])"

definition well_formed_entries :: "'f py \<Rightarrow> string list \<Rightarrow> 'f ticker_mapping" where
  "well_formed_entries rt ls =
     map_of (rev (map (\<lambda>raw. (line_source rt raw, JStr (line_target rt raw)))
                      (filter (well_formed_line rt) ls)))"

definition file_source :: "'f py \<Rightarrow> config_file \<Rightarrow> 'f ticker_mapping" where
  "file_source rt cf =
     (case cf of
        File ls None \<Rightarrow> well_formed_entries rt ls
      | _ \<Rightarrow> Map.empty)"

section \<open>The dispatch loop\<close>

text \<open>
  \<^verbatim>\<open>broadcast_signal_async\<close> and \<^verbatim>\<open>_init_broadcast_loop\<close> read and write the
  globals \<^verbatim>\<open>_broadcast_loop\<close> and \<^verbatim>\<open>_broadcast_loop_thread\<close> from whichever thread
  handles a request, and the thread they start writes \<^verbatim>\<open>_broadcast_loop\<close> from
  \<^verbatim>\<open>run_loop\<close>. Each of them is therefore a sequence of steps, one per line that
  touches the globals, and a run of the program is a schedule that says whose step comes
  next. A \<^verbatim>\<open>Thread\<close> object is the number of objects created before it, and an event
  loop is the thread that created it.
\<close>

datatype position =
    At_228 | At_233 | At_214 | At_215 | At_216 | At_219 | At_237 | Returned

datatype outcome = Scheduled_on nat | Ran_inline | Failed

record loop_world =
  broadcast_loop :: "nat option"
  broadcast_loop_thread :: "nat option"
  thread_objects :: nat
  started_threads :: "nat list"
  created_loops :: "nat list"
  running_loops :: "nat list"
  position_of :: "nat \<Rightarrow> position"
  outcomes :: "(nat \<times> outcome) list"

text \<open>At start nothing is initialised and every caller is at the top of the function.\<close>

definition initial_world :: loop_world where
  "initial_world =
     \<lparr> broadcast_loop = None, broadcast_loop_thread = None, thread_objects = 0,
       started_threads = [], created_loops = [], running_loops = [],
       position_of = (\<lambda>i. At_228),
       outcomes = [] \<rparr>"

text \<open>
  \<^verbatim>\<open>t.is_alive()\<close>: true once \<^verbatim>\<open>start()\<close> has returned, since \<^verbatim>\<open>run_forever\<close>
  does not return.
\<close>

definition is_alive :: "loop_world \<Rightarrow> nat \<Rightarrow> bool" where
  "is_alive w t = (t \<in> set (started_threads w))"

text \<open>
  One step of the caller \<open>i\<close> of \<^verbatim>\<open>broadcast_signal_async\<close>, by the line it is at.
  Line 228 tests \<^verbatim>\<open>WS_ENABLED\<close>; line 233 tests \<^verbatim>\<open>_broadcast_loop is None\<close> and
  enters \<^verbatim>\<open>_init_broadcast_loop\<close>, whose line 214 tests the thread, line 215 creates
  and assigns a new \<^verbatim>\<open>Thread\<close>, line 216 starts the thread that
  \<^verbatim>\<open>_broadcast_loop_thread\<close> holds at that moment (starting a started thread raises
  \<^verbatim>\<open>RuntimeError\<close>, which the \<^verbatim>\<open>except\<close> of line 245 catches) and line 219 sleeps;
  line 237 submits to the loop if it is set and running and otherwise runs the broadcast
  on a temporary loop.
\<close>

definition submitter_step :: "bool \<Rightarrow> nat \<Rightarrow> loop_world \<Rightarrow> loop_world" where
  "submitter_step ws_enabled i w =
     (let goto = (\<lambda>p. w\<lparr>position_of := (position_of w)(i := p)\<rparr>) in
      case position_of w i of
        At_228 \<Rightarrow> if \<not> ws_enabled then goto Returned else goto At_233
      | At_233 \<Rightarrow> if broadcast_loop w = None then goto At_214 else goto At_237
      | At_214 \<Rightarrow>
          (case broadcast_loop_thread w of
             None \<Rightarrow> goto At_215
           | Some t \<Rightarrow> if \<not> is_alive w t then goto At_215 else goto At_237)
      | At_215 \<Rightarrow>
          w\<lparr>broadcast_loop_thread := Some (thread_objects w),
            thread_objects := Suc (thread_objects w),
            position_of := (position_of w)(i := At_216)\<rparr>
      | At_216 \<Rightarrow>
          (case broadcast_loop_thread w of
             None \<Rightarrow> w\<lparr>outcomes := outcomes w @ [(i, Failed)],
                        position_of := (position_of w)(i := Returned)\<rparr>
           | Some t \<Rightarrow>
               if is_alive w t
               then w\<lparr>outcomes := outcomes w @ [(i, Failed)],
                      position_of := (position_of w)(i := Returned)\<rparr>
               else w\<lparr>started_threads := started_threads w @ [t],
                      position_of := (position_of w)(i := At_219)\<rparr>)
      | At_219 \<Rightarrow> goto At_237
      | At_237 \<Rightarrow>
          (case broadcast_loop w of
             None \<Rightarrow> w\<lparr>outcomes := outcomes w @ [(i, Ran_inline)],
                        position_of := (position_of w)(i := Returned)\<rparr>
           | Some l \<Rightarrow>
               if l \<in> set (running_loops w)
               then w\<lparr>outcomes := outcomes w @ [(i, Scheduled_on l)],
                      position_of := (position_of w)(i := Returned)\<rparr>
               else w\<lparr>outcomes := outcomes w @ [(i, Ran_inline)],
                      position_of := (position_of w)(i := Returned)\<rparr>)
      | Returned \<Rightarrow> w)"

text \<open>
  One step of the started thread \<open>t\<close> in \<^verbatim>\<open>run_loop\<close>: line 210 creates its loop and
  assigns it to \<^verbatim>\<open>_broadcast_loop\<close>, line 212 runs it, for ever.
\<close>

definition loop_thread_step :: "nat \<Rightarrow> loop_world \<Rightarrow> loop_world" where
  "loop_thread_step t w =
     (if \<not> is_alive w t then w
      else if t \<notin> set (created_loops w)
      then w\<lparr>broadcast_loop := Some t, created_loops := created_loops w @ [t]\<rparr>
      else if t \<notin> set (running_loops w)
      then w\<lparr>running_loops := running_loops w @ [t]\<rparr>
      else w)"

datatype actor = Submitter nat | Loop_thread nat

fun run :: "bool \<Rightarrow> actor list \<Rightarrow> loop_world \<Rightarrow> loop_world" where
  "run ws_enabled [] w = w"
| "run ws_enabled (Submitter i # rest) w = run ws_enabled rest (submitter_step ws_enabled i w)"
| "run ws_enabled (Loop_thread t # rest) w = run ws_enabled rest (loop_thread_step t w)"

text \<open>The seven steps of one whole call by the caller \<open>i\<close>, with nothing in between.\<close>

definition whole_call :: "nat \<Rightarrow> actor list" where
  "whole_call i =
     [Submitter i, Submitter i, Submitter i, Submitter i, Submitter i, Submitter i, Submitter i]"

text \<open>
  The states that calls made one after the other leave: nothing initialised, or one
  thread, assigned and started, with the loop not yet set or set by that thread.
\<close>

definition settled :: "loop_world \<Rightarrow> bool" where
  "settled w =
     ((broadcast_loop_thread w = None \<and> started_threads w = [] \<and> broadcast_loop w = None)
      \<or> (\<exists>t. broadcast_loop_thread w = Some t \<and> started_threads w = [t]
               \<and> (broadcast_loop w = None \<or> broadcast_loop w = Some t)))"

text \<open>
  A schedule in which calls are made one after the other: each turn is a whole call by
  one caller, or one step of a loop thread.
\<close>

datatype turn = Whole_call nat | Loop_step nat

fun one_after_the_other :: "turn list \<Rightarrow> actor list" where
  "one_after_the_other [] = []"
| "one_after_the_other (Whole_call i # ts) = whole_call i @ one_after_the_other ts"
| "one_after_the_other (Loop_step t # ts) = Loop_thread t # one_after_the_other ts"

fun callers :: "turn list \<Rightarrow> nat list" where
  "callers [] = []"
| "callers (Whole_call i # ts) = i # callers ts"
| "callers (Loop_step t # ts) = callers ts"

section \<open>The webhook handler\<close>

text \<open>The dict \<^verbatim>\<open>signal_data\<close> that the handler builds and hands to the broadcast.\<close>

record 'f signal =
  Ticker :: "'f json"
  Action :: "'f json"
  Price :: "'f option"
  Interval :: "int option"

text \<open>The response: status code and the fields \<^verbatim>\<open>status\<close> and \<^verbatim>\<open>message\<close>.\<close>

datatype http_response = Response nat string string

text \<open>\<^verbatim>\<open>data.get(key, default)\<close>; \<^verbatim>\<open>data\<close> is whatever JSON the request held.\<close>

definition dict_get :: "'f json \<Rightarrow> string \<Rightarrow> 'f json \<Rightarrow> exn + 'f json" where
  "dict_get data k dflt =
     (case data of
        JObj kvs \<Rightarrow> Inr (case map_of kvs k of Some v \<Rightarrow> v | None \<Rightarrow> dflt)
      | _ \<Rightarrow> Inl (Exn AttributeError ''object has no attribute get''))"

text \<open>
  \<^verbatim>\<open>except (ValueError, TypeError)\<close>; \<^verbatim>\<open>JSONDecodeError\<close> is a subclass of
  \<^verbatim>\<open>ValueError\<close>.
\<close>

definition caught_by_conversion :: "exn \<Rightarrow> bool" where
  "caught_by_conversion e = (exn_class_of e \<in> {ValueError, TypeError, JSONDecodeError})"

text \<open>
  The block that computes \<^verbatim>\<open>price_value\<close>. \<^verbatim>\<open>bool\<close> is a subclass of
  \<^verbatim>\<open>int\<close>, so \<^verbatim>\<open>isinstance(price, (int, float))\<close> holds of \<^verbatim>\<open>True\<close>.
\<close>

definition price_value :: "'f py \<Rightarrow> 'f json \<Rightarrow> exn + 'f option" where
  "price_value rt price =
     (if truthy rt price \<and> price \<noteq> JStr unknown_price then
        (case (case price of
                 JBool b \<Rightarrow> map_sum id Some (float_of_int rt (if b then 1 else 0))
               | JInt i \<Rightarrow> map_sum id Some (float_of_int rt i)
               | JFloat x \<Rightarrow> Inr (Some x)
               | JStr s \<Rightarrow> map_sum id Some (float_of_str rt s)
               | _ \<Rightarrow> Inr None) of
           Inl e \<Rightarrow> if caught_by_conversion e then Inr None else Inl e
         | Inr v \<Rightarrow> Inr v)
      else Inr None)"

text \<open>The block that computes \<^verbatim>\<open>interval_value\<close>.\<close>

definition interval_value :: "'f py \<Rightarrow> 'f json \<Rightarrow> exn + int option" where
  "interval_value rt interval =
     (if truthy rt interval then
        (case (case interval of
                 JBool b \<Rightarrow> Inr (Some (if b then 1 else 0))
               | JInt i \<Rightarrow> Inr (Some i)
               | JFloat x \<Rightarrow> map_sum id Some (int_of_float rt x)
               | JStr s \<Rightarrow> map_sum id Some (int_of_str rt s)
               | _ \<Rightarrow> Inr None) of
           Inl e \<Rightarrow> if caught_by_conversion e then Inr None else Inl e
         | Inr v \<Rightarrow> Inr v)
      else Inr None)"

text \<open>
  The \<^verbatim>\<open>try\<close> block of \<^verbatim>\<open>webhook_listener\<close> up to \<^verbatim>\<open>signal_data\<close>. The
  argument is the outcome of \<^verbatim>\<open>request.json\<close>. Log lines are not modelled.
\<close>

definition webhook_signal :: "'f py \<Rightarrow> 'f ticker_mapping \<Rightarrow> exn + 'f json \<Rightarrow> exn + 'f signal" where
  "webhook_signal rt tm request_json =
     (case request_json of
        Inl e \<Rightarrow> Inl e
      | Inr data \<Rightarrow>
     (case dict_get data ''ticker'' (JStr unknown_ticker) of
        Inl e \<Rightarrow> Inl e
      | Inr ticker \<Rightarrow>
     (case dict_get data ''action'' (JStr no_action) of
        Inl e \<Rightarrow> Inl e
      | Inr action \<Rightarrow>
     (case dict_get data ''price'' (JStr unknown_price) of
        Inl e \<Rightarrow> Inl e
      | Inr price \<Rightarrow>
     (case dict_get data ''interval'' JNull of
        Inl e \<Rightarrow> Inl e
      | Inr interval \<Rightarrow>
     (case price_value rt price of
        Inl e \<Rightarrow> Inl e
      | Inr pv \<Rightarrow>
     (case interval_value rt interval of
        Inl e \<Rightarrow> Inl e
      | Inr iv \<Rightarrow>
     (case map_ticker rt tm ticker of
        Inl e \<Rightarrow> Inl e
      | Inr mapped_ticker \<Rightarrow>
          Inr \<lparr> Ticker = mapped_ticker, Action = action,
                Price = pv, Interval = iv \<rparr>))))))))"

text \<open>
  \<^verbatim>\<open>webhook_listener()\<close>: the response, and the \<^verbatim>\<open>signal_data\<close> passed to
  \<^verbatim>\<open>broadcast_signal_async\<close> (none when \<^verbatim>\<open>WS_ENABLED\<close> is false or an exception
  was raised before). \<^verbatim>\<open>broadcast_signal_async\<close> catches every exception, so the
  response does not depend on the broadcast.
\<close>

definition webhook_listener ::
  "'f py \<Rightarrow> bool \<Rightarrow> 'f ticker_mapping \<Rightarrow> exn + 'f json \<Rightarrow> http_response \<times> 'f signal option" where
  "webhook_listener rt ws_enabled tm request_json =
     (case webhook_signal rt tm request_json of
        Inr signal_data \<Rightarrow>
          (Response 200 ''success'' ''Signal received'',
           if ws_enabled then Some signal_data else None)
      | Inl e \<Rightarrow> (Response 400 ''error'' (exn_str e), None))"

text \<open>A decoded JSON object without the key \<open>k\<close>.\<close>

definition without_field :: "string \<Rightarrow> (string \<times> 'a) list \<Rightarrow> (string \<times> 'a) list" where
  "without_field k kvs = filter (\<lambda>kv. fst kv \<noteq> k) kvs"

text \<open>
  The field values that the specification calls non-numeric, as Python sees them: null,
  false, an array, an object, and a string that is empty, the sentinel, or rejected by the
  conversion with a \<^verbatim>\<open>ValueError\<close>. A number is not among them, and neither is
  \<^verbatim>\<open>true\<close>.
\<close>

fun non_numeric_price :: "'f py \<Rightarrow> 'f json \<Rightarrow> bool" where
  "non_numeric_price rt JNull = True"
| "non_numeric_price rt (JBool b) = (\<not> b)"
| "non_numeric_price rt (JInt i) = False"
| "non_numeric_price rt (JFloat x) = False"
| "non_numeric_price rt (JStr s) =
     (s = [] \<or> s = unknown_price \<or>
      (case float_of_str rt s of Inl e \<Rightarrow> exn_class_of e = ValueError | Inr x \<Rightarrow> False))"
| "non_numeric_price rt (JList xs) = True"
| "non_numeric_price rt (JObj kvs) = True"

fun non_numeric_interval :: "'f py \<Rightarrow> 'f json \<Rightarrow> bool" where
  "non_numeric_interval rt JNull = True"
| "non_numeric_interval rt (JBool b) = (\<not> b)"
| "non_numeric_interval rt (JInt i) = False"
| "non_numeric_interval rt (JFloat x) = False"
| "non_numeric_interval rt (JStr s) =
     (s = [] \<or>
      (case int_of_str rt s of Inl e \<Rightarrow> exn_class_of e = ValueError | Inr i \<Rightarrow> False))"
| "non_numeric_interval rt (JList xs) = True"
| "non_numeric_interval rt (JObj kvs) = True"

text \<open>The number zero: the integer \<open>0\<close>, or a float that is false (\<open>0.0\<close>, \<open>-0.0\<close>).\<close>

fun zero_number :: "'f py \<Rightarrow> 'f json \<Rightarrow> bool" where
  "zero_number rt (JInt i) = (i = 0)"
| "zero_number rt (JFloat x) = (\<not> float_truthy rt x)"
| "zero_number rt v = False"

section \<open>Properties of the ticker mapping\<close>

text \<open>
  C4. For every string ticker, \<open>map_ticker\<close> returns the input unchanged when it is
  empty or the unknown sentinel; otherwise it looks the uppercased input up in the table
  and returns the mapped value when the key is present and the original input, not
  uppercased, when it is absent. It never raises on a string.
\<close>

theorem map_ticker_string:
  "map_ticker rt tm (JStr s) =
     Inr (if s = [] \<or> s = unknown_ticker then JStr s
          else (case tm (str_upper rt s) of Some v \<Rightarrow> v | None \<Rightarrow> JStr s))"
  by (simp add: map_ticker_def split: option.splits)

theorem map_ticker_string_witness:
  "map_ticker ascii_py default_ticker_mapping (JStr ''gc'') = Inr (JStr ''MGC'')
   \<and> map_ticker ascii_py default_ticker_mapping (JStr ''Es'') = Inr (JStr ''Es'')
   \<and> map_ticker ascii_py default_ticker_mapping (JStr []) = Inr (JStr [])
   \<and> map_ticker ascii_py default_ticker_mapping (JStr unknown_ticker) = Inr (JStr unknown_ticker)"
  using map_ticker_string [of ascii_py default_ticker_mapping "''gc''"]
    map_ticker_string [of ascii_py default_ticker_mapping "''Es''"]
    map_ticker_string [of ascii_py default_ticker_mapping "[]"]
    map_ticker_string [of ascii_py default_ticker_mapping unknown_ticker]
  by (simp add: ascii_py_def default_ticker_mapping_def unknown_ticker_def ascii_upper_char_def)

text \<open>
  C9, as the code has it. When the table maps to strings, the result \<open>m\<close> of mapping a
  string ticker is a string. If the uppercase of \<open>m\<close> is not a key of the table,
  mapping \<open>m\<close> again returns \<open>m\<close>. If it is a key (and \<open>m\<close> is neither empty nor
  the sentinel), mapping \<open>m\<close> again returns that key's value: one more lookup, no
  transitive chaining, and the same \<open>m\<close> only where the key maps to \<open>m\<close> itself.
\<close>

theorem map_ticker_idempotent:
  assumes "\<forall>k v. tm k = Some v \<longrightarrow> (\<exists>s. v = JStr s)"
  shows "\<exists>m. map_ticker rt tm (JStr t) = Inr (JStr m)
           \<and> (str_upper rt m \<notin> dom tm \<longrightarrow> map_ticker rt tm (JStr m) = Inr (JStr m))
           \<and> (\<forall>v. m \<noteq> [] \<and> m \<noteq> unknown_ticker \<and> tm (str_upper rt m) = Some v
                  \<longrightarrow> map_ticker rt tm (JStr m) = Inr v)"
proof -
  have again: "(str_upper rt m \<notin> dom tm \<longrightarrow> map_ticker rt tm (JStr m) = Inr (JStr m))
           \<and> (\<forall>v. m \<noteq> [] \<and> m \<noteq> unknown_ticker \<and> tm (str_upper rt m) = Some v
                  \<longrightarrow> map_ticker rt tm (JStr m) = Inr v)" for m
    by (auto simp: map_ticker_def dom_def)
  show ?thesis
  proof (cases "t = [] \<or> t = unknown_ticker \<or> tm (str_upper rt t) = None")
    case True
    then have "map_ticker rt tm (JStr t) = Inr (JStr t)"
      by (auto simp: map_ticker_def)
    with again [of t] show ?thesis by blast
  next
    case False
    then obtain v where v: "tm (str_upper rt t) = Some v" by auto
    with assms obtain m where m: "v = JStr m" by blast
    from False v m have "map_ticker rt tm (JStr t) = Inr (JStr m)"
      by (simp add: map_ticker_def)
    with again [of m] show ?thesis by blast
  qed
qed

text \<open>
  With the default table \<open>gc\<close> and \<open>GC\<close> map to \<open>MGC\<close>, \<open>XX\<close> and the empty
  string to themselves, and \<open>MGC\<close>, whose uppercase is not a key, to itself. With a
  table that maps \<open>A\<close> to \<open>B\<close> and \<open>B\<close> to \<open>C\<close>, \<open>A\<close> maps to \<open>B\<close> and
  \<open>B\<close> to \<open>C\<close>.
\<close>

theorem map_ticker_idempotent_witness:
  "map_ticker ascii_py default_ticker_mapping (JStr ''gc'') = Inr (JStr ''MGC'')
   \<and> map_ticker ascii_py default_ticker_mapping (JStr ''GC'') = Inr (JStr ''MGC'')
   \<and> map_ticker ascii_py default_ticker_mapping (JStr ''XX'') = Inr (JStr ''XX'')
   \<and> map_ticker ascii_py default_ticker_mapping (JStr []) = Inr (JStr [])
   \<and> str_upper ascii_py ''MGC'' \<notin> dom (default_ticker_mapping :: real ticker_mapping)
   \<and> map_ticker ascii_py default_ticker_mapping (JStr ''MGC'') = Inr (JStr ''MGC'')
   \<and> map_ticker ascii_py [''A'' \<mapsto> JStr ''B'', ''B'' \<mapsto> JStr ''C''] (JStr ''A'') = Inr (JStr ''B'')
   \<and> map_ticker ascii_py [''A'' \<mapsto> JStr ''B'', ''B'' \<mapsto> JStr ''C''] (JStr ''B'') = Inr (JStr ''C'')"
proof -
  have tbl: "\<forall>k v. (default_ticker_mapping :: real ticker_mapping) k = Some v
               \<longrightarrow> (\<exists>s. v = JStr s)"
    by (simp add: default_ticker_mapping_def)
  have gc: "map_ticker ascii_py default_ticker_mapping (JStr ''gc'') = Inr (JStr ''MGC'')"
    by (simp add: map_ticker_def ascii_py_def default_ticker_mapping_def unknown_ticker_def
        ascii_upper_char_def)
  have up: "str_upper ascii_py ''MGC'' \<notin> dom (default_ticker_mapping :: real ticker_mapping)"
    by (simp add: ascii_py_def default_ticker_mapping_def ascii_upper_char_def)
  from map_ticker_idempotent [OF tbl, of ascii_py "''gc''"] gc up
  have again: "map_ticker ascii_py default_ticker_mapping (JStr ''MGC'') = Inr (JStr ''MGC'')"
    by auto
  have rest:
    "map_ticker ascii_py default_ticker_mapping (JStr ''GC'') = Inr (JStr ''MGC'')
     \<and> map_ticker ascii_py default_ticker_mapping (JStr ''XX'') = Inr (JStr ''XX'')
     \<and> map_ticker ascii_py default_ticker_mapping (JStr []) = Inr (JStr [])
     \<and> map_ticker ascii_py [''A'' \<mapsto> JStr ''B'', ''B'' \<mapsto> JStr ''C''] (JStr ''A'')
         = Inr (JStr ''B'')
     \<and> map_ticker ascii_py [''A'' \<mapsto> JStr ''B'', ''B'' \<mapsto> JStr ''C''] (JStr ''B'')
         = Inr (JStr ''C'')"
    by (simp add: map_ticker_def ascii_py_def default_ticker_mapping_def unknown_ticker_def
        ascii_upper_char_def)
  from gc up again rest show ?thesis by simp
qed

text \<open>
  A table in which \<open>GC\<close> maps to itself, as the file line \<open>GC=GC\<close> makes it: the
  mapped value of \<open>GC\<close> is \<open>GC\<close>, which is a key of the table, and mapping it again
  gives \<open>GC\<close> all the same.
\<close>

theorem map_ticker_self_entry:
  "map_ticker ascii_py [''GC'' \<mapsto> JStr ''GC''] (JStr ''GC'') = Inr (JStr ''GC'')
   \<and> str_upper ascii_py ''GC'' \<in> dom [''GC'' \<mapsto> (JStr ''GC'' :: real json)]"
  by (simp add: map_ticker_def ascii_py_def unknown_ticker_def ascii_upper_char_def)

section \<open>Properties of the broadcast\<close>

lemma send_each_result:
  "send_each send message cs (d, tr) =
     (d \<union> {c \<in> set cs. send c message \<noteq> None}, tr @ map (send_event send message) cs)"
  by (induction cs arbitrary: d tr) (auto simp: send_event_def split: option.splits)

lemma filter_not_failed:
  "filter (\<lambda>c. c \<notin> {c \<in> set cs. send c message \<noteq> None}) cs
     = filter (\<lambda>c. send c message = None) cs"
  by (rule filter_cong) auto

text \<open>
  C1. With broadcasting enabled and a signal record that serialises to \<open>message\<close>,
  \<open>broadcast_signal\<close> returns without raising, whatever the sends do; it has attempted
  one send of \<open>message\<close> to every handle of its snapshot, in order, also after a send
  that failed; and the registry afterwards is the prior membership minus exactly the
  handles whose send failed.
\<close>

theorem broadcast_signal_prunes:
  assumes "json_dumps signal_data = Inr message"
  shows "\<exists>st'. broadcast_signal True json_dumps send signal_data st = Inr st'
           \<and> io_trace st' = io_trace st @ map (send_event send message) (ws_clients st)
           \<and> ws_clients st' = filter (\<lambda>c. send c message = None) (ws_clients st)
           \<and> set (ws_clients st') = set (ws_clients st) - {c. send c message \<noteq> None}"
proof (cases "ws_clients st = []")
  case True
  with assms show ?thesis by (simp add: broadcast_signal_def)
next
  case False
  let ?failed = "{c \<in> set (ws_clients st). send c message \<noteq> None}"
  let ?tr = "io_trace st @ map (send_event send message) (ws_clients st)"
  have loop: "send_each send message (ws_clients st) ({}, io_trace st) = (?failed, ?tr)"
    by (simp add: send_each_result)
  show ?thesis
  proof (cases "?failed = {}")
    case True
    then have keep: "filter (\<lambda>c. send c message = None) (ws_clients st) = ws_clients st"
      by (auto simp: filter_id_conv)
    from True have "broadcast_signal True json_dumps send signal_data st = Inr (st\<lparr>io_trace := ?tr\<rparr>)"
      using assms False loop by (simp add: broadcast_signal_def)
    with keep True show ?thesis by auto
  next
    case nonempty: False
    then have "broadcast_signal True json_dumps send signal_data st =
        Inr (st\<lparr>ws_clients := filter (\<lambda>c. c \<notin> ?failed) (ws_clients st), io_trace := ?tr\<rparr>)"
      using assms False loop by (simp add: broadcast_signal_def)
    moreover have "filter (\<lambda>c. c \<notin> ?failed) (ws_clients st)
        = filter (\<lambda>c. send c message = None) (ws_clients st)"
      by (rule filter_not_failed)
    ultimately have "broadcast_signal True json_dumps send signal_data st =
        Inr (st\<lparr>ws_clients := filter (\<lambda>c. send c message = None) (ws_clients st),
                io_trace := ?tr\<rparr>)"
      by (simp only:)
    then show ?thesis by auto
  qed
qed

text \<open>
  Three registered handles, the send to the second one fails: the registry is left with
  the first and the third, which were sent the same message.
\<close>

theorem broadcast_signal_prunes_witness:
  "broadcast_signal True (\<lambda>sd. Inr ''message'')
       (\<lambda>c m. if c = (2::nat) then Some (Exn OtherException ''connection closed'') else None)
       \<lparr> Ticker = JStr ''MGC'', Action = JStr ''buy'', Price = Some (1950.5::real),
         Interval = Some 10 \<rparr>
       \<lparr> ws_clients = [1, 2, 3], io_trace = [] \<rparr>
     = Inr \<lparr> ws_clients = [1, 3],
             io_trace = [Sent 1 ''message'', SendFailed 2 ''message'', Sent 3 ''message''] \<rparr>"
  using broadcast_signal_prunes [of "\<lambda>sd. Inr ''message''"
      "\<lparr> Ticker = JStr ''MGC'', Action = JStr ''buy'', Price = Some (1950.5::real),
         Interval = Some 10 \<rparr>"
      "''message''"
      "\<lambda>c m. if c = (2::nat) then Some (Exn OtherException ''connection closed'') else None"
      "\<lparr> ws_clients = [1, 2, 3], io_trace = [] \<rparr>"]
  by (auto simp: send_event_def)

text \<open>
  C2. With broadcasting disabled \<open>broadcast_signal\<close> returns at once: nothing is
  serialised, nothing is sent, the registry and the trace are as before. With an empty
  registry and a signal record that serialises, it returns likewise with the state
  unchanged. Neither case raises.
\<close>

theorem broadcast_signal_noop:
  "broadcast_signal False json_dumps send signal_data st = Inr st
   \<and> (json_dumps signal_data = Inr message \<and> ws_clients st = []
        \<longrightarrow> broadcast_signal ws_enabled json_dumps send signal_data st = Inr st)"
  by (simp add: broadcast_signal_def)

theorem broadcast_signal_noop_witness:
  "broadcast_signal False (\<lambda>sd. Inl (Exn TypeError ''not JSON serializable''))
       (\<lambda>c m. Some (Exn OtherException ''connection closed'')) ()
       \<lparr> ws_clients = [1::nat, 2], io_trace = [] \<rparr>
     = Inr \<lparr> ws_clients = [1, 2], io_trace = [] \<rparr>
   \<and> broadcast_signal True (\<lambda>sd. Inr ''message'')
       (\<lambda>c m. Some (Exn OtherException ''connection closed'')) ()
       \<lparr> ws_clients = ([] :: nat list), io_trace = [] \<rparr>
     = Inr \<lparr> ws_clients = [], io_trace = [] \<rparr>"
  using broadcast_signal_noop [of "\<lambda>sd. Inl (Exn TypeError ''not JSON serializable'')"
      "\<lambda>c m. Some (Exn OtherException ''connection closed'')" "()"
      "\<lparr> ws_clients = [1::nat, 2], io_trace = [] \<rparr>"]
    broadcast_signal_noop [of "\<lambda>sd. Inr ''message''"
      "\<lambda>c m. Some (Exn OtherException ''connection closed'')" "()"
      "\<lparr> ws_clients = ([] :: nat list), io_trace = [] \<rparr>" "''message''" True]
  by simp

section \<open>Properties of the loader\<close>

lemma file_entries_Cons:
  "file_entries rt (raw # rest) =
     (case line_entry rt raw of
        None \<Rightarrow> file_entries rt rest
      | Some (s, t) \<Rightarrow> [s \<mapsto> t] ++ file_entries rt rest)"
  by (auto simp: file_entries_def List.map_filter_simps split: option.splits)

lemma read_lines_mapping:
  "map_of (fst (read_lines rt n ls (fm, lg))) = map_of fm ++ file_entries rt ls"
proof (induction ls arbitrary: n fm lg)
  case Nil
  then show ?case by (simp add: file_entries_def List.map_filter_simps)
next
  case (Cons raw rest)
  show ?case
  proof (cases "parse_line rt raw")
    case Passed_over
    then show ?thesis using Cons.IH by (simp add: file_entries_Cons)
  next
    case (Entry s t)
    have "(map_of fm)(s \<mapsto> t) = map_of fm ++ [s \<mapsto> t]" by simp
    then show ?thesis using Entry Cons.IH [of "Suc n" "AList.update s t fm" lg]
      by (simp add: file_entries_Cons update_conv' del: map_add_upd_left map_add_upd)
  next
    case Skipped_with_warning
    then show ?thesis using Cons.IH by (simp add: file_entries_Cons)
  qed
qed

lemma read_lines_log:
  "snd (read_lines rt n ls (fm, lg)) = lg @ line_warnings rt n ls"
  by (induction ls arbitrary: n fm lg) (auto simp: line_warnings_def split: line_kind.splits)

lemma read_lines_start:
  assumes "read_lines rt n ls ([], []) = (fm, lg)"
  shows "file_entries rt ls = map_of fm \<and> line_warnings rt n ls = lg"
  using read_lines_mapping [of rt n ls "[]" "[]"] read_lines_log [of rt n ls "[]" "[]"] assms
  by simp

lemma file_table:
  "fst (load_ticker_mapping rt file None) = Inr (default_ticker_mapping ++ file_layer rt file)"
  by (cases "file") (auto simp: load_ticker_mapping_def file_layer_def dest!: read_lines_start
      split: option.splits prod.splits)

lemma load_env_object:
  "fst (load_ticker_mapping rt file (Some (Inr (JObj kvs))))
     = Inr (default_ticker_mapping ++ file_layer rt file ++ map_of kvs)"
  by (cases "file") (auto simp: load_ticker_mapping_def file_layer_def dict_update_def dest!: read_lines_start
      split: option.splits prod.splits)

lemma file_entries_source:
  assumes "file_entries rt ls k = Some t"
  shows "\<exists>raw \<in> set ls. parse_line rt raw = Entry k t"
proof -
  from assms have "(k, t) \<in> set (List.map_filter (line_entry rt) ls)"
    by (auto simp: file_entries_def dest: map_of_SomeD)
  then obtain raw where "raw \<in> set ls" "line_entry rt raw = Some (k, t)"
    by (auto simp: List.map_filter_def)
  then show ?thesis by (auto split: line_kind.splits)
qed

lemma parse_line_Entry:
  "parse_line rt raw = Entry k t \<Longrightarrow>
     k = str_upper rt (str_strip rt (fst (split_eq (str_strip rt raw))))
     \<and> t = str_strip rt (snd (split_eq (str_strip rt raw)))"
  by (auto simp: parse_line_def Let_def split: if_splits)



lemma file_entries_append:
  "file_entries rt (xs @ ys) = file_entries rt xs ++ file_entries rt ys"
  by (simp add: file_entries_def List.map_filter_def)


lemma file_entries_None:
  assumes "\<forall>raw \<in> set ys. \<forall>t'. parse_line rt raw \<noteq> Entry k t'"
  shows "file_entries rt ys k = None"
proof (rule ccontr)
  assume "file_entries rt ys k \<noteq> None"
  then obtain t where "file_entries rt ys k = Some t" by auto
  from file_entries_source [OF this] assms show False by auto
qed

lemma file_entries_last:
  assumes "parse_line rt l = Entry k t"
    and "\<forall>raw \<in> set ys. \<forall>t'. parse_line rt raw \<noteq> Entry k t'"
  shows "file_entries rt (xs @ l # ys) k = Some t"
  using assms file_entries_None [OF assms(2)]
  by (simp add: file_entries_append file_entries_Cons map_add_def)










text \<open>
  The entry that the loop takes from a line is the one the specification describes, and
  so is the layer that the file contributes.
\<close>

lemma line_entry_well_formed:
  "line_entry rt raw =
     (if well_formed_line rt raw then Some (line_source rt raw, line_target rt raw) else None)"
  by (auto simp: parse_line_def well_formed_line_def line_source_def line_target_def
      text_before_equals_def text_after_equals_def split_eq_def Let_def)

lemma map_filter_line_entry:
  "List.map_filter (line_entry rt) ls =
     map (\<lambda>raw. (line_source rt raw, line_target rt raw)) (filter (well_formed_line rt) ls)"
  by (induction ls) (simp_all add: List.map_filter_simps line_entry_well_formed del: line_entry.simps)

lemma file_entries_well_formed:
  "map_option JStr \<circ> file_entries rt ls = well_formed_entries rt ls"
proof -
  have "well_formed_entries rt ls =
      map_of (map (\<lambda>(k, v). (k, JStr v)) (rev (List.map_filter (line_entry rt) ls)))"
    by (simp add: well_formed_entries_def map_filter_line_entry rev_map comp_def)
  then show ?thesis
    by (simp add: map_of_map file_entries_def)
qed

lemma file_layer_source: "file_layer rt cf = file_source rt cf"
  by (cases cf) (auto simp: file_layer_def file_source_def file_entries_well_formed
      split: option.splits)

lemma well_formed_line_reaches:
  assumes "well_formed_line rt l"
    and "\<forall>raw \<in> set ys. well_formed_line rt raw \<longrightarrow> line_source rt raw \<noteq> line_source rt l"
  shows "well_formed_entries rt (xs @ l # ys) (line_source rt l) = Some (JStr (line_target rt l))"
proof -
  have l: "parse_line rt l = Entry (line_source rt l) (line_target rt l)"
    using assms(1) line_entry_well_formed [of rt l] by (auto split: line_kind.splits)
  have ys: "\<forall>raw \<in> set ys. \<forall>t'. parse_line rt raw \<noteq> Entry (line_source rt l) t'"
  proof (intro ballI allI notI)
    fix raw t' assume raw: "raw \<in> set ys" and "parse_line rt raw = Entry (line_source rt l) t'"
    then have "line_entry rt raw = Some (line_source rt l, t')" by simp
    then have "well_formed_line rt raw \<and> line_source rt raw = line_source rt l"
      by (auto simp: line_entry_well_formed simp del: line_entry.simps split: if_splits)
    with assms(2) raw show False by auto
  qed
  from file_entries_last [OF l ys, of xs]
  have "(map_option JStr \<circ> file_entries rt (xs @ l # ys)) (line_source rt l)
      = Some (JStr (line_target rt l))"
    by simp
  then show ?thesis
    using file_entries_well_formed [of rt "xs @ l # ys"] by metis
qed

text \<open>
  C5. The final table is the three sources layered, a later source overriding an earlier
  one key by key: for every key the environment object's value if it has one, else the
  value of the last well-formed line of the file whose source, trimmed and uppercased,
  is that key, else the default. In particular a well-formed line of the file reaches the
  table with its uppercased source as key, unless a later well-formed line or the
  environment object has the same key. This holds whether or not the file exists or could
  be read, and with the environment variable unset or holding a JSON object.
\<close>

theorem load_ticker_mapping_layers:
  assumes "env = None \<or> env = Some (Inr (JObj kvs))"
  shows "\<exists>tm. fst (load_ticker_mapping rt cf env) = Inr tm
          \<and> (\<forall>k. tm k = (case env_layer env k of
                           Some v \<Rightarrow> Some v
                         | None \<Rightarrow> (case file_source rt cf k of
                                      Some v \<Rightarrow> Some v
                                    | None \<Rightarrow> default_ticker_mapping k)))
          \<and> (\<forall>xs l ys. cf = File (xs @ l # ys) None \<and> well_formed_line rt l
                \<and> (\<forall>raw \<in> set ys. well_formed_line rt raw
                                   \<longrightarrow> line_source rt raw \<noteq> line_source rt l)
                \<and> env_layer env (line_source rt l) = None
                \<longrightarrow> tm (line_source rt l) = Some (JStr (line_target rt l)))"
proof -
  let ?tm = "default_ticker_mapping ++ file_source rt cf ++ env_layer env"
  have tm: "fst (load_ticker_mapping rt cf env) = Inr ?tm"
    using assms by (auto simp: file_table load_env_object env_layer_def file_layer_source)
  have keys: "?tm k =
      (case env_layer env k of
         Some v \<Rightarrow> Some v
       | None \<Rightarrow> (case file_source rt cf k of
                    Some v \<Rightarrow> Some v
                  | None \<Rightarrow> default_ticker_mapping k))" for k
    by (simp add: map_add_def split: option.splits)
  have reach: "?tm (line_source rt l) = Some (JStr (line_target rt l))"
    if "cf = File (xs @ l # ys) None" "well_formed_line rt l"
      "\<forall>raw \<in> set ys. well_formed_line rt raw \<longrightarrow> line_source rt raw \<noteq> line_source rt l"
      "env_layer env (line_source rt l) = None" for xs l ys
    using that well_formed_line_reaches [OF that(2) that(3), of xs]
    by (simp add: map_add_def file_source_def)
  from tm keys reach show ?thesis by blast
qed

text \<open>
  Defaults \<open>GC \<rightarrow> MGC\<close>, a file with \<open>GC=MGC\<close> and \<open>CL=MCL\<close>, the environment
  object \<open>CL \<rightarrow> MCLX\<close>: the table is exactly \<open>GC \<rightarrow> MGC\<close>, \<open>CL \<rightarrow> MCLX\<close>. A
  file with \<open>gc = XGC\<close> and \<open>es=MES\<close> and no environment value: the file's entries
  reach the table under the uppercased keys, \<open>GC\<close> overriding the default.
\<close>

lemmas spec_eval = well_formed_entries_def well_formed_line_def line_source_def line_target_def
  text_before_equals_def text_after_equals_def ascii_py_def ascii_strip_def ascii_space_def
  ascii_upper_char_def

theorem load_ticker_mapping_layers_witness:
  "fst (load_ticker_mapping ascii_py
          (File [''GC=MGC'' @ [CHR 0x0A], ''CL=MCL'' @ [CHR 0x0A]] None)
          (Some (Inr (JObj [(''CL'', JStr ''MCLX'')]))))
     = Inr [''GC'' \<mapsto> JStr ''MGC'', ''CL'' \<mapsto> JStr ''MCLX'']
   \<and> fst (load_ticker_mapping ascii_py
          (File [''gc = XGC'' @ [CHR 0x0A], '' es=MES '' @ [CHR 0x0A]] None) None)
     = Inr [''GC'' \<mapsto> JStr ''XGC'', ''ES'' \<mapsto> JStr ''MES'']"
proof -
  let ?file = "File [''GC=MGC'' @ [CHR 0x0A], ''CL=MCL'' @ [CHR 0x0A]] None"
  let ?env = "Some (Inr (JObj [(''CL'', JStr ''MCLX'' :: real json)])) :: (exn + real json) option"
  let ?file2 = "File [''gc = XGC'' @ [CHR 0x0A], '' es=MES '' @ [CHR 0x0A]] None"
  from load_ticker_mapping_layers [of ?env "[(''CL'', JStr ''MCLX'')]" ascii_py ?file]
  obtain tm where tm: "fst (load_ticker_mapping ascii_py ?file ?env) = Inr tm"
    and keys: "\<And>k. tm k = (case env_layer ?env k of
                           Some v \<Rightarrow> Some v
                         | None \<Rightarrow> (case file_source ascii_py ?file k of
                                      Some v \<Rightarrow> Some v
                                    | None \<Rightarrow> default_ticker_mapping k))"
    by auto
  have "tm k = [''GC'' \<mapsto> JStr ''MGC'', ''CL'' \<mapsto> JStr ''MCLX''] k" for k
    unfolding keys
    by (simp add: env_layer_def file_source_def default_ticker_mapping_def spec_eval)
  then have "tm = [''GC'' \<mapsto> JStr ''MGC'', ''CL'' \<mapsto> JStr ''MCLX'']" by (rule ext)
  with tm have first: "fst (load_ticker_mapping ascii_py ?file ?env)
      = Inr [''GC'' \<mapsto> JStr ''MGC'', ''CL'' \<mapsto> JStr ''MCLX'']" by simp
  from load_ticker_mapping_layers [of "None :: (exn + real json) option" "[]" ascii_py ?file2]
  obtain tm2 where tm2: "fst (load_ticker_mapping ascii_py ?file2 None) = Inr tm2"
    and keys2: "\<And>k. tm2 k = (case env_layer (None :: (exn + real json) option) k of
                           Some v \<Rightarrow> Some v
                         | None \<Rightarrow> (case file_source ascii_py ?file2 k of
                                      Some v \<Rightarrow> Some v
                                    | None \<Rightarrow> default_ticker_mapping k))"
    by auto
  have "tm2 k = [''GC'' \<mapsto> JStr ''XGC'', ''ES'' \<mapsto> JStr ''MES''] k" for k
    unfolding keys2
    by (simp add: env_layer_def file_source_def default_ticker_mapping_def spec_eval)
  then have "tm2 = [''GC'' \<mapsto> JStr ''XGC'', ''ES'' \<mapsto> JStr ''MES'']" by (rule ext)
  with tm2 first show ?thesis by simp
qed

section \<open>Properties of the webhook handler\<close>

lemma map_of_without_field:
  "map_of (without_field k kvs) k' = (if k' = k then None else map_of kvs k')"
  by (induction kvs) (auto simp: without_field_def)

lemma price_value_absent: "price_value rt (JStr unknown_price) = Inr None"
  by (simp add: price_value_def)

lemma interval_value_absent: "interval_value rt JNull = Inr None"
  by (simp add: interval_value_def)

lemma price_value_non_numeric: "non_numeric_price rt v \<Longrightarrow> price_value rt v = Inr None"
  by (cases v) (auto simp: price_value_def caught_by_conversion_def split: sum.splits)

lemma interval_value_non_numeric: "non_numeric_interval rt v \<Longrightarrow> interval_value rt v = Inr None"
  by (cases v) (auto simp: interval_value_def caught_by_conversion_def split: sum.splits)

lemma price_value_zero: "zero_number rt v \<Longrightarrow> price_value rt v = Inr None"
  by (cases v) (auto simp: price_value_def)

lemma interval_value_zero: "zero_number rt v \<Longrightarrow> interval_value rt v = Inr None"
  by (cases v) (auto simp: interval_value_def)

lemma webhook_signal_object:
  "webhook_signal rt tm (Inr (JObj kvs)) =
     (case price_value rt (case map_of kvs ''price'' of Some v \<Rightarrow> v | None \<Rightarrow> JStr unknown_price) of
        Inl e \<Rightarrow> Inl e
      | Inr pv \<Rightarrow>
     (case interval_value rt (case map_of kvs ''interval'' of Some v \<Rightarrow> v | None \<Rightarrow> JNull) of
        Inl e \<Rightarrow> Inl e
      | Inr iv \<Rightarrow>
     (case map_ticker rt tm (case map_of kvs ''ticker'' of Some v \<Rightarrow> v | None \<Rightarrow> JStr unknown_ticker) of
        Inl e \<Rightarrow> Inl e
      | Inr mapped_ticker \<Rightarrow>
          Inr \<lparr> Ticker = mapped_ticker,
                Action = (case map_of kvs ''action'' of Some v \<Rightarrow> v | None \<Rightarrow> JStr no_action),
                Price = pv, Interval = iv \<rparr>)))"
  by (simp add: webhook_signal_def dict_get_def)

lemma price_field_as_absent:
  assumes "map_of kvs ''price'' = Some v" and "price_value rt v = Inr None"
  shows "webhook_signal rt tm (Inr (JObj kvs))
           = webhook_signal rt tm (Inr (JObj (without_field ''price'' kvs)))"
  using assms
  by (simp add: webhook_signal_object map_of_without_field price_value_absent
      cong: sum.case_cong)

lemma interval_field_as_absent:
  assumes "map_of kvs ''interval'' = Some v" and "interval_value rt v = Inr None"
  shows "webhook_signal rt tm (Inr (JObj kvs))
           = webhook_signal rt tm (Inr (JObj (without_field ''interval'' kvs)))"
  using assms
  by (simp add: webhook_signal_object map_of_without_field interval_value_absent
      cong: sum.case_cong)

lemma price_field_null:
  assumes "map_of kvs ''price'' = Some v" and "price_value rt v = Inr None"
    and "webhook_signal rt tm (Inr (JObj kvs)) = Inr sd"
  shows "Price sd = None"
  using assms by (auto simp: webhook_signal_object split: sum.splits)

lemma interval_field_null:
  assumes "map_of kvs ''interval'' = Some v" and "interval_value rt v = Inr None"
    and "webhook_signal rt tm (Inr (JObj kvs)) = Inr sd"
  shows "Interval sd = None"
  using assms by (auto simp: webhook_signal_object split: sum.splits)

text \<open>
  C7. The request body with ticker \<open>GC\<close>, action \<open>buy\<close>, price \<open>"1950.5"\<close> and
  interval \<open>"10"\<close>, under a table that maps \<open>GC\<close> to \<open>MGC\<close>: the handler hands the
  broadcast the payload with exactly the fields \<open>Ticker = MGC\<close> (mapped),
  \<open>Action = buy\<close> (raw), \<open>Price\<close> the float that \<^verbatim>\<open>float("1950.5")\<close> returns and
  \<open>Interval\<close> the integer \<open>10\<close>, and answers 200 with status \<open>success\<close> and message
  \<open>Signal received\<close>.
\<close>

theorem webhook_listener_example:
  assumes "tm ''GC'' = Some (JStr ''MGC'')" and "str_upper rt ''GC'' = ''GC''"
    and "float_of_str rt ''1950.5'' = Inr p" and "int_of_str rt ''10'' = Inr 10"
  shows "webhook_listener rt True tm
           (Inr (JObj [(''ticker'', JStr ''GC''), (''action'', JStr ''buy''),
                       (''price'', JStr ''1950.5''), (''interval'', JStr ''10'')]))
         = (Response 200 ''success'' ''Signal received'',
            Some \<lparr> Ticker = JStr ''MGC'', Action = JStr ''buy'',
                   Price = Some p, Interval = Some 10 \<rparr>)"
  using assms
  by (simp add: webhook_listener_def webhook_signal_object price_value_def interval_value_def
      map_ticker_def unknown_price_def unknown_ticker_def)

text \<open>With the reference builtins the price is the number 1950.5.\<close>

lemmas ascii_numbers = read_decimal_def read_int_def read_digits_def ascii_digit_def

theorem webhook_listener_example_witness:
  "webhook_listener ascii_py True default_ticker_mapping
           (Inr (JObj [(''ticker'', JStr ''GC''), (''action'', JStr ''buy''),
                       (''price'', JStr ''1950.5''), (''interval'', JStr ''10'')]))
         = (Response 200 ''success'' ''Signal received'',
            Some \<lparr> Ticker = JStr ''MGC'', Action = JStr ''buy'',
                   Price = Some 1950.5, Interval = Some 10 \<rparr>)"
proof -
  have "(default_ticker_mapping :: real ticker_mapping) ''GC'' = Some (JStr ''MGC'')"
    by (simp add: default_ticker_mapping_def)
  moreover have "str_upper ascii_py ''GC'' = ''GC''"
    by (simp add: ascii_py_def ascii_upper_char_def)
  moreover have "float_of_str ascii_py ''1950.5'' = Inr 1950.5"
    by (simp add: ascii_py_def ascii_numbers)
  moreover have "int_of_str ascii_py ''10'' = Inr 10"
    by (simp add: ascii_py_def ascii_numbers)
  ultimately show ?thesis by (rule webhook_listener_example)
qed

text \<open>
  C8. A request whose price is not a number or a numeric string is to give \<open>Price\<close>
  null; the comment above the block says so too. For the JSON value \<^verbatim>\<open>true\<close> the
  handler does not: \<^verbatim>\<open>bool\<close> is a subclass of \<^verbatim>\<open>int\<close>, the \<^verbatim>\<open>isinstance\<close>
  test admits it, and the payload carries the price \<open>1.0\<close>.
\<close>

theorem webhook_price_true:
  "webhook_listener ascii_py True default_ticker_mapping
           (Inr (JObj [(''ticker'', JStr ''ES''), (''action'', JStr ''sell''),
                       (''price'', JBool True)]))
         = (Response 200 ''success'' ''Signal received'',
            Some \<lparr> Ticker = JStr ''ES'', Action = JStr ''sell'',
                   Price = Some 1, Interval = None \<rparr>)"
  by (simp add: webhook_listener_def webhook_signal_object price_value_def interval_value_def
      map_ticker_def unknown_price_def unknown_ticker_def ascii_py_def ascii_upper_char_def
      default_ticker_mapping_def)

text \<open>
  For every other non-numeric value the handler does what C8 says: the field is treated
  as absent, and a request whose ticker is a string or missing and whose price and
  interval are each missing or non-numeric is answered with 200 and carries null for
  both.
\<close>

lemma webhook_listener_payload:
  "webhook_listener rt en tm req = (resp, Some sd) \<Longrightarrow> webhook_signal rt tm req = Inr sd"
  by (auto simp: webhook_listener_def split: sum.splits if_splits)

lemma non_numeric_field_is_absent:
  "(map_of kvs ''price'' = Some v \<and> non_numeric_price rt v \<longrightarrow>
      webhook_listener rt en tm (Inr (JObj kvs))
        = webhook_listener rt en tm (Inr (JObj (without_field ''price'' kvs))))
   \<and> (map_of kvs ''interval'' = Some v \<and> non_numeric_interval rt v \<longrightarrow>
      webhook_listener rt en tm (Inr (JObj kvs))
        = webhook_listener rt en tm (Inr (JObj (without_field ''interval'' kvs))))"
  using price_field_as_absent [of kvs v rt tm] interval_field_as_absent [of kvs v rt tm]
  by (auto simp: webhook_listener_def price_value_non_numeric interval_value_non_numeric)

lemma map_ticker_total_on_strings:
  "\<exists>m. map_ticker rt tm (JStr s) = Inr m"
  by (simp add: map_ticker_def split: option.splits)

lemma non_numeric_fields_succeed:
  assumes "map_of kvs ''ticker'' = None \<or> (\<exists>s. map_of kvs ''ticker'' = Some (JStr s))"
    and "map_of kvs ''price'' = None \<or> (\<exists>v. map_of kvs ''price'' = Some v \<and> non_numeric_price rt v)"
    and "map_of kvs ''interval'' = None
         \<or> (\<exists>v. map_of kvs ''interval'' = Some v \<and> non_numeric_interval rt v)"
  shows "\<exists>sd. webhook_listener rt True tm (Inr (JObj kvs))
                 = (Response 200 ''success'' ''Signal received'', Some sd)
               \<and> Price sd = None \<and> Interval sd = None"
proof -
  let ?P = "case map_of kvs ''price'' of Some v \<Rightarrow> v | None \<Rightarrow> JStr unknown_price"
  let ?I = "case map_of kvs ''interval'' of Some v \<Rightarrow> v | None \<Rightarrow> JNull"
  let ?T = "case map_of kvs ''ticker'' of Some v \<Rightarrow> v | None \<Rightarrow> JStr unknown_ticker"
  from assms(2) have p: "price_value rt ?P = Inr None"
    by (auto simp: price_value_absent price_value_non_numeric)
  from assms(3) have i: "interval_value rt ?I = Inr None"
    by (auto simp: interval_value_absent interval_value_non_numeric)
  from assms(1) obtain s where "?T = JStr s" by auto
  with map_ticker_total_on_strings [of rt tm s]
  obtain m where t: "map_ticker rt tm ?T = Inr m" by auto
  from p i t show ?thesis
    by (simp add: webhook_listener_def webhook_signal_object)
qed

lemma webhook_price_abc:
  "webhook_listener ascii_py True default_ticker_mapping
           (Inr (JObj [(''ticker'', JStr ''ES''), (''action'', JStr ''sell''),
                       (''price'', JStr ''abc'')]))
         = (Response 200 ''success'' ''Signal received'',
            Some \<lparr> Ticker = JStr ''ES'', Action = JStr ''sell'',
                   Price = None, Interval = None \<rparr>)"
  by (simp add: webhook_listener_def webhook_signal_object price_value_def interval_value_def
      map_ticker_def unknown_price_def unknown_ticker_def ascii_py_def ascii_upper_char_def
      default_ticker_mapping_def ascii_numbers caught_by_conversion_def)

text \<open>
  C10, as the code has it. A price or an interval that is the number zero is false in
  Python and is treated as if the field were absent: the handler does what it does
  without the field, and a payload it emits carries null there. The string \<open>"0"\<close> is
  true: a payload carries the price that \<^verbatim>\<open>float("0")\<close> returns.
\<close>

theorem zero_number_is_absent:
  "(map_of kvs ''price'' = Some v \<and> zero_number rt v \<longrightarrow>
      webhook_listener rt en tm (Inr (JObj kvs))
        = webhook_listener rt en tm (Inr (JObj (without_field ''price'' kvs)))
      \<and> (\<forall>resp sd. webhook_listener rt en tm (Inr (JObj kvs)) = (resp, Some sd)
            \<longrightarrow> Price sd = None))
   \<and> (map_of kvs ''interval'' = Some v \<and> zero_number rt v \<longrightarrow>
      webhook_listener rt en tm (Inr (JObj kvs))
        = webhook_listener rt en tm (Inr (JObj (without_field ''interval'' kvs)))
      \<and> (\<forall>resp sd. webhook_listener rt en tm (Inr (JObj kvs)) = (resp, Some sd)
            \<longrightarrow> Interval sd = None))
   \<and> (map_of kvs ''price'' = Some (JStr ''0'') \<and> float_of_str rt ''0'' = Inr z \<longrightarrow>
        (\<forall>resp sd. webhook_listener rt en tm (Inr (JObj kvs)) = (resp, Some sd)
            \<longrightarrow> Price sd = Some z))"
proof -
  have price: "webhook_listener rt en tm (Inr (JObj kvs))
        = webhook_listener rt en tm (Inr (JObj (without_field ''price'' kvs)))
      \<and> (\<forall>resp sd. webhook_listener rt en tm (Inr (JObj kvs)) = (resp, Some sd)
            \<longrightarrow> Price sd = None)"
    if "map_of kvs ''price'' = Some v" "zero_number rt v"
  proof (intro conjI allI impI)
    from that have pv: "price_value rt v = Inr None" by (simp add: price_value_zero)
    show "webhook_listener rt en tm (Inr (JObj kvs))
        = webhook_listener rt en tm (Inr (JObj (without_field ''price'' kvs)))"
      using price_field_as_absent [OF that(1) pv, of tm] by (simp add: webhook_listener_def)
    show "Price sd = None"
      if "webhook_listener rt en tm (Inr (JObj kvs)) = (resp, Some sd)" for resp sd
      using price_field_null [OF \<open>map_of kvs ''price'' = Some v\<close> pv webhook_listener_payload [OF that]] .
  qed
  have interval: "webhook_listener rt en tm (Inr (JObj kvs))
        = webhook_listener rt en tm (Inr (JObj (without_field ''interval'' kvs)))
      \<and> (\<forall>resp sd. webhook_listener rt en tm (Inr (JObj kvs)) = (resp, Some sd)
            \<longrightarrow> Interval sd = None)"
    if "map_of kvs ''interval'' = Some v" "zero_number rt v"
  proof (intro conjI allI impI)
    from that have iv: "interval_value rt v = Inr None" by (simp add: interval_value_zero)
    show "webhook_listener rt en tm (Inr (JObj kvs))
        = webhook_listener rt en tm (Inr (JObj (without_field ''interval'' kvs)))"
      using interval_field_as_absent [OF that(1) iv, of tm] by (simp add: webhook_listener_def)
    show "Interval sd = None"
      if "webhook_listener rt en tm (Inr (JObj kvs)) = (resp, Some sd)" for resp sd
      using interval_field_null [OF \<open>map_of kvs ''interval'' = Some v\<close> iv webhook_listener_payload [OF that]] .
  qed
  have str0: "Price sd = Some z"
    if "map_of kvs ''price'' = Some (JStr ''0'')" "float_of_str rt ''0'' = Inr z"
      "webhook_listener rt en tm (Inr (JObj kvs)) = (resp, Some sd)" for resp sd
  proof -
    from that(2) have "price_value rt (JStr ''0'') = Inr (Some z)"
      by (simp add: price_value_def unknown_price_def)
    with that(1) webhook_listener_payload [OF that(3)] show ?thesis
      by (auto simp: webhook_signal_object split: sum.splits)
  qed
  from price interval str0 show ?thesis by blast
qed

theorem zero_number_is_absent_witness:
  "webhook_listener ascii_py True default_ticker_mapping
           (Inr (JObj [(''ticker'', JStr ''ES''), (''action'', JStr ''sell''),
                       (''price'', JInt 0), (''interval'', JInt 0)]))
         = (Response 200 ''success'' ''Signal received'',
            Some \<lparr> Ticker = JStr ''ES'', Action = JStr ''sell'',
                   Price = None, Interval = None \<rparr>)
   \<and> zero_number ascii_py (JInt 0)
   \<and> zero_number ascii_py (JFloat 0)"
  using zero_number_is_absent [where rt = ascii_py and en = True and v = "JInt 0"
      and tm = default_ticker_mapping
      and kvs = "[(''ticker'', JStr ''ES''), (''action'', JStr ''sell''),
                  (''price'', JInt 0), (''interval'', JInt 0)]"]
  by (simp add: webhook_listener_def webhook_signal_object price_value_def interval_value_def
      map_ticker_def unknown_price_def unknown_ticker_def ascii_py_def ascii_upper_char_def
      default_ticker_mapping_def without_field_def)

text \<open>
  The string \<open>"0"\<close> is not empty, hence true, and is converted: the payload carries
  the price \<open>0.0\<close>, not null.
\<close>

theorem webhook_price_string_zero:
  "webhook_listener ascii_py True default_ticker_mapping
           (Inr (JObj [(''ticker'', JStr ''ES''), (''action'', JStr ''sell''),
                       (''price'', JStr ''0'')]))
         = (Response 200 ''success'' ''Signal received'',
            Some \<lparr> Ticker = JStr ''ES'', Action = JStr ''sell'',
                   Price = Some 0, Interval = None \<rparr>)"
  by (simp add: webhook_listener_def webhook_signal_object price_value_def interval_value_def
      map_ticker_def unknown_price_def unknown_ticker_def ascii_py_def ascii_upper_char_def
      default_ticker_mapping_def ascii_numbers)

section \<open>Properties of the dispatch loop\<close>

text \<open>The steps of a caller, by the line it is at.\<close>

lemma step_228:
  "position_of w i = At_228 \<Longrightarrow>
     submitter_step True i w = w\<lparr>position_of := (position_of w)(i := At_233)\<rparr>"
  by (simp add: submitter_step_def)

lemma step_233:
  "position_of w i = At_233 \<Longrightarrow>
     submitter_step en i w =
       w\<lparr>position_of := (position_of w)(i := if broadcast_loop w = None then At_214 else At_237)\<rparr>"
  by (simp add: submitter_step_def)

lemma step_214:
  "position_of w i = At_214 \<Longrightarrow>
     submitter_step en i w =
       w\<lparr>position_of := (position_of w)
           (i := if \<exists>t. broadcast_loop_thread w = Some t \<and> is_alive w t then At_237 else At_215)\<rparr>"
  by (auto simp: submitter_step_def split: option.splits)

lemma step_215:
  "position_of w i = At_215 \<Longrightarrow>
     submitter_step en i w =
       w\<lparr>broadcast_loop_thread := Some (thread_objects w),
         thread_objects := Suc (thread_objects w),
         position_of := (position_of w)(i := At_216)\<rparr>"
  by (simp add: submitter_step_def)

lemma step_216:
  "position_of w i = At_216 \<Longrightarrow> broadcast_loop_thread w = Some t \<Longrightarrow> \<not> is_alive w t \<Longrightarrow>
     submitter_step en i w =
       w\<lparr>started_threads := started_threads w @ [t],
         position_of := (position_of w)(i := At_219)\<rparr>"
  by (simp add: submitter_step_def)

lemma step_219:
  "position_of w i = At_219 \<Longrightarrow>
     submitter_step en i w = w\<lparr>position_of := (position_of w)(i := At_237)\<rparr>"
  by (simp add: submitter_step_def)

lemma step_237:
  "position_of w i = At_237 \<Longrightarrow>
     submitter_step en i w =
       w\<lparr>outcomes := outcomes w @
           [(i, case broadcast_loop w of
                  None \<Rightarrow> Ran_inline
                | Some l \<Rightarrow> if l \<in> set (running_loops w) then Scheduled_on l else Ran_inline)],
         position_of := (position_of w)(i := Returned)\<rparr>"
  by (auto simp: submitter_step_def split: option.splits)

lemma step_Returned:
  "position_of w i = Returned \<Longrightarrow> submitter_step en i w = w"
  by (simp add: submitter_step_def)

lemmas submitter_steps = step_228 step_233 step_214 step_215 step_216 step_219 step_237
  step_Returned

text \<open>
  A whole call with nothing in between: from a state with nothing initialised it creates
  and starts one thread; from a state with one thread started it starts none.
\<close>

lemma whole_call_fresh:
  assumes "broadcast_loop_thread w = None" "started_threads w = []" "broadcast_loop w = None"
    and "position_of w i = At_228"
  shows "run True (whole_call i) w =
     w\<lparr>broadcast_loop_thread := Some (thread_objects w),
       thread_objects := Suc (thread_objects w),
       started_threads := [thread_objects w],
       position_of := (position_of w)(i := Returned),
       outcomes := outcomes w @ [(i, Ran_inline)]\<rparr>"
  using assms by (simp add: whole_call_def submitter_steps is_alive_def)

lemma whole_call_started:
  assumes "broadcast_loop_thread w = Some t" "started_threads w = [t]"
    and "broadcast_loop w = None \<or> broadcast_loop w = Some t"
    and "position_of w i = At_228"
  shows "run True (whole_call i) w =
     w\<lparr>position_of := (position_of w)(i := Returned),
       outcomes := outcomes w @
         [(i, if broadcast_loop w = Some t \<and> t \<in> set (running_loops w)
              then Scheduled_on t else Ran_inline)]\<rparr>"
  using assms by (auto simp: whole_call_def submitter_steps is_alive_def)


lemma run_append: "run en (xs @ ys) w = run en ys (run en xs w)"
proof (induction xs arbitrary: w)
  case Nil
  then show ?case by simp
next
  case (Cons a xs)
  then show ?case by (cases a) simp_all
qed

lemma settled_initial: "settled initial_world"
  by (simp add: settled_def initial_world_def)

lemma loop_thread_step_settled:
  assumes "settled w"
  shows "settled (loop_thread_step t w)"
    and "started_threads (loop_thread_step t w) = started_threads w"
    and "position_of (loop_thread_step t w) = position_of w"
  using assms by (auto simp: settled_def loop_thread_step_def is_alive_def)

lemma whole_call_settled:
  assumes "settled w" and "position_of w i = At_228"
  shows "settled (run True (whole_call i) w)"
    and "length (started_threads (run True (whole_call i) w)) = 1"
    and "position_of (run True (whole_call i) w) = (position_of w)(i := Returned)"
    and "started_threads w \<noteq> [] \<Longrightarrow>
           started_threads (run True (whole_call i) w) = started_threads w"
proof -
  from assms(1) consider
      "broadcast_loop_thread w = None" "started_threads w = []" "broadcast_loop w = None"
    | t where "broadcast_loop_thread w = Some t" "started_threads w = [t]"
        "broadcast_loop w = None \<or> broadcast_loop w = Some t"
    by (auto simp: settled_def)
  then have "settled (run True (whole_call i) w)
      \<and> length (started_threads (run True (whole_call i) w)) = 1
      \<and> position_of (run True (whole_call i) w) = (position_of w)(i := Returned)
      \<and> (started_threads w \<noteq> [] \<longrightarrow>
           started_threads (run True (whole_call i) w) = started_threads w)"
  proof cases
    case 1
    from whole_call_fresh [OF 1 assms(2)] 1 show ?thesis
      by (simp add: settled_def)
  next
    case 2
    from whole_call_started [OF 2 assms(2)] 2 show ?thesis
      by (simp add: settled_def)
  qed
  then show "settled (run True (whole_call i) w)"
    and "length (started_threads (run True (whole_call i) w)) = 1"
    and "position_of (run True (whole_call i) w) = (position_of w)(i := Returned)"
    and "started_threads w \<noteq> [] \<Longrightarrow>
           started_threads (run True (whole_call i) w) = started_threads w"
    by simp_all
qed

text \<open>
  Calls made one after the other, with the loop threads stepping in between, start
  exactly one thread, however many calls there are.
\<close>

lemma calls_one_after_the_other:
  assumes "settled w" and "distinct (callers ts)"
    and "\<forall>i \<in> set (callers ts). position_of w i = At_228"
  shows "settled (run True (one_after_the_other ts) w)
     \<and> (started_threads w \<noteq> [] \<longrightarrow>
          started_threads (run True (one_after_the_other ts) w) = started_threads w)
     \<and> (callers ts \<noteq> [] \<longrightarrow>
          length (started_threads (run True (one_after_the_other ts) w)) = 1)"
  using assms
proof (induction ts arbitrary: w rule: callers.induct)
  case 1
  then show ?case by simp
next
  case (2 i ts)
  let ?w = "run True (whole_call i) w"
  from 2 have i: "position_of w i = At_228" by simp
  note call = whole_call_settled [OF \<open>settled w\<close> i]
  from 2 call(3) have "\<forall>j \<in> set (callers ts). position_of ?w j = At_228" by auto
  with 2 call(1) have ih: "settled (run True (one_after_the_other ts) ?w)
     \<and> (started_threads ?w \<noteq> [] \<longrightarrow>
          started_threads (run True (one_after_the_other ts) ?w) = started_threads ?w)
     \<and> (callers ts \<noteq> [] \<longrightarrow>
          length (started_threads (run True (one_after_the_other ts) ?w)) = 1)"
    by simp
  from call(2) have ne: "started_threads ?w \<noteq> []" by auto
  from ih ne call(2) call(4) show ?case
    by (simp add: run_append)
next
  case (3 t ts)
  from 3 loop_thread_step_settled [OF \<open>settled w\<close>, of t] show ?case
    by simp
qed

lemma sequential_calls_start_one_loop:
  assumes "distinct (callers ts)" and "callers ts \<noteq> []"
  shows "length (started_threads (run True (one_after_the_other ts) initial_world)) = 1"
  using calls_one_after_the_other [OF settled_initial assms(1)] assms(2)
  by (simp add: initial_world_def)

text \<open>
  The first call finds no loop, starts thread \<open>0\<close> and, the loop not yet being set,
  runs its broadcast on a temporary loop; the second call, made after the thread has set
  and run its loop, is scheduled on it and starts nothing.
\<close>

lemma one_submitter_starts_one_loop:
  "started_threads (run True (whole_call 1 @ [Loop_thread 0, Loop_thread 0] @ whole_call 2)
      initial_world) = [0]
   \<and> outcomes (run True (whole_call 1 @ [Loop_thread 0, Loop_thread 0] @ whole_call 2)
      initial_world) = [(1, Ran_inline), (2, Scheduled_on 0)]"
  by (simp add: initial_world_def whole_call_def submitter_step_def loop_thread_step_def
      is_alive_def)

text \<open>
  C3. Two callers of \<^verbatim>\<open>broadcast_signal_async\<close> while the dispatch loop is not yet
  started, in the schedule in which both pass the tests of lines 233 and 214 before
  either reaches line 215: no lock is taken around lines 214 to 216, so each caller
  creates a thread and starts it. Two background threads exist, and each of them creates
  and runs an event loop of its own.
\<close>

theorem two_submitters_start_two_loops:
  "started_threads
     (run True [Submitter 1, Submitter 1, Submitter 1, Submitter 2, Submitter 2, Submitter 2,
                Submitter 1, Submitter 1, Submitter 2, Submitter 2] initial_world) = [0, 1]
   \<and> created_loops
     (run True [Submitter 1, Submitter 1, Submitter 1, Submitter 2, Submitter 2, Submitter 2,
                Submitter 1, Submitter 1, Submitter 2, Submitter 2,
                Loop_thread 0, Loop_thread 0, Loop_thread 1, Loop_thread 1] initial_world)
       = [0, 1]
   \<and> running_loops
     (run True [Submitter 1, Submitter 1, Submitter 1, Submitter 2, Submitter 2, Submitter 2,
                Submitter 1, Submitter 1, Submitter 2, Submitter 2,
                Loop_thread 0, Loop_thread 0, Loop_thread 1, Loop_thread 1] initial_world)
       = [0, 1]"
  by (simp add: initial_world_def submitter_step_def loop_thread_step_def is_alive_def)

end
